theory Spec2Isabelle
  imports Main "HOL-Library.Sublist"
begin

section \<open>The nightly tarball generator of mediawiki-extdist\<close>

text \<open>
  A shallow embedding of \<^verbatim>\<open>src/mediawiki_extdist/__init__.py\<close> (class
  \<^verbatim>\<open>TarballGenerator\<close>). Python strings are \<open>string\<close>s (ASCII text is assumed),
  directories are maps from entry names to files, exceptions are values of a sum
  type, and the external programmes the script shells out to (git, tar, mkdir,
  composer, date), the process table, the random number generator and the web API
  are parameters of the model (record \<open>env\<close> below).
\<close>

subsection \<open>Python string operations used by the script\<close>

text \<open>\<^verbatim>\<open>str.isspace\<close> on ASCII: TAB, LF, VT, FF, CR, FS, GS, RS, US and space.\<close>

definition py_isspace :: "char \<Rightarrow> bool" where
  "py_isspace c = (c \<in> {CHR 0x09, CHR 0x0A, CHR 0x0B, CHR 0x0C, CHR 0x0D,
                         CHR 0x1C, CHR 0x1D, CHR 0x1E, CHR 0x1F, CHR '' ''})"

text \<open>\<^verbatim>\<open>s.strip()\<close>\<close>

definition py_strip :: "string \<Rightarrow> string" where
  "py_strip s = rev (dropWhile py_isspace (rev (dropWhile py_isspace s)))"

text \<open>\<^verbatim>\<open>s.startswith(p)\<close>\<close>

definition py_startswith :: "string \<Rightarrow> string \<Rightarrow> bool" where
  "py_startswith s p = (take (length p) s = p)"

text \<open>\<^verbatim>\<open>s.split(c)\<close> for a one-character separator: never the empty list.\<close>

fun py_split :: "char \<Rightarrow> string \<Rightarrow> string list" where
  "py_split c [] = [[]]"
| "py_split c (x # xs) =
     (if x = c then [] # py_split c xs
      else (case py_split c xs of
              w # ws \<Rightarrow> (x # w) # ws
            | [] \<Rightarrow> [[x]]))"









subsection \<open>\<^verbatim>\<open>glob.glob\<close> on one directory\<close>

text \<open>
  \<^verbatim>\<open>glob.glob(os.path.join(d, pat))\<close> lists the entries of \<open>d\<close> whose names match
  \<open>pat\<close> under \<^verbatim>\<open>fnmatch\<close>: \<open>*\<close> matches any text, \<open>?\<close> one character, \<open>[...]\<close>
  a character class, anything else itself. A \<open>[\<close> with no closing \<open>]\<close> is a
  literal. What a class body matches is decided by Python's \<^verbatim>\<open>re\<close> module; it is
  the parameter \<open>cls\<close> here. Names starting with a dot are only listed when the
  pattern starts with a dot.
\<close>

datatype glob_tok = Star | QMark | Class string | Lit char

text \<open>
  The scan of \<^verbatim>\<open>fnmatch.translate\<close> after a \<open>[\<close>: skip one \<open>!\<close>, skip one \<open>]\<close>,
  then run to the next \<open>]\<close>. The result is the class body and the text after the
  closing bracket, or \<open>None\<close> when the bracket is never closed.
\<close>

definition class_end :: "string \<Rightarrow> (string \<times> string) option" where
  "class_end cs =
     (let (neg, r1) = (case cs of c # r \<Rightarrow> if c = CHR ''!'' then ([c], r) else ([], cs)
                                | [] \<Rightarrow> ([], cs));
          (brk, r2) = (case r1 of c # r \<Rightarrow> if c = CHR '']'' then ([c], r) else ([], r1)
                                | [] \<Rightarrow> ([], r1));
          body = takeWhile (\<lambda>c. c \<noteq> CHR '']'') r2;
          r3 = dropWhile (\<lambda>c. c \<noteq> CHR '']'') r2
      in (case r3 of [] \<Rightarrow> None | _ # rest \<Rightarrow> Some (neg @ brk @ body, rest)))"

lemma class_end_shorter: "class_end cs = Some (stuff, rest) \<Longrightarrow> length rest < Suc (length cs)"
proof -
  assume a: "class_end cs = Some (stuff, rest)"
  have d: "\<And>r. length (dropWhile (\<lambda>c. c \<noteq> CHR '']'') r) \<le> length r"
    by (simp add: length_dropWhile_le)
  from a show ?thesis
    unfolding class_end_def Let_def
    by (auto split: list.splits if_splits prod.splits
             dest!: arg_cong [where f = length]
             intro: le_less_trans [OF _ lessI])
       (metis d le_SucI length_Cons less_Suc_eq_le list.size(4) not_less_eq_eq Suc_eq_plus1)+
qed

function glob_tokens :: "string \<Rightarrow> glob_tok list" where
  "glob_tokens [] = []"
| "glob_tokens (c # cs) =
     (if c = CHR ''*'' then Star # glob_tokens cs
      else if c = CHR ''?'' then QMark # glob_tokens cs
      else if c = CHR ''['' then
        (case class_end cs of
           None \<Rightarrow> Lit c # glob_tokens cs
         | Some (stuff, rest) \<Rightarrow> Class stuff # glob_tokens rest)
      else Lit c # glob_tokens cs)"
  by pat_completeness auto
termination
  by (relation "measure length") (auto dest: class_end_shorter)

fun tok_match :: "(string \<Rightarrow> char \<Rightarrow> bool) \<Rightarrow> glob_tok list \<Rightarrow> string \<Rightarrow> bool" where
  "tok_match cls [] s = (s = [])"
| "tok_match cls (Star # ts) [] = tok_match cls ts []"
| "tok_match cls (Star # ts) (d # s) = (tok_match cls ts (d # s) \<or> tok_match cls (Star # ts) s)"
| "tok_match cls (QMark # ts) [] = False"
| "tok_match cls (QMark # ts) (d # s) = tok_match cls ts s"
| "tok_match cls (Class k # ts) [] = False"
| "tok_match cls (Class k # ts) (d # s) = (cls k d \<and> tok_match cls ts s)"
| "tok_match cls (Lit c # ts) [] = False"
| "tok_match cls (Lit c # ts) (d # s) = (c = d \<and> tok_match cls ts s)"

text \<open>\<^verbatim>\<open>glob._ishidden\<close>\<close>

definition ishidden :: "string \<Rightarrow> bool" where
  "ishidden p = (case p of [] \<Rightarrow> False | c # _ \<Rightarrow> c = CHR ''.'')"

definition glob_match :: "(string \<Rightarrow> char \<Rightarrow> bool) \<Rightarrow> string \<Rightarrow> string \<Rightarrow> bool" where
  "glob_match cls pat name =
     ((ishidden pat \<or> \<not> ishidden name) \<and> tok_match cls (glob_tokens pat) name)"

subsection \<open>Exceptions and the state the script acts on\<close>

text \<open>
  The exceptions that matter to the script. \<open>OtherError\<close> stands for any other
  subclass of \<^verbatim>\<open>Exception\<close> (an HTTP error of \<^verbatim>\<open>requests\<close>, \<^verbatim>\<open>KeyError\<close>,
  \<^verbatim>\<open>OverflowError\<close>, ...). \<^verbatim>\<open>KeyboardInterrupt\<close> is the only one that is not a
  subclass of \<^verbatim>\<open>Exception\<close>. \<^verbatim>\<open>SystemExit\<close> is raised by \<^verbatim>\<open>quit()\<close> and
  \<^verbatim>\<open>sys.exit(1)\<close> only, at the top level of \<^verbatim>\<open>init\<close> and \<^verbatim>\<open>run\<close>.
\<close>

datatype exn = CalledProcessError | OSError | ValueError | KeyboardInterrupt | OtherError string



text \<open>\<^verbatim>\<open>traceback.format_exc()\<close>: only the name of the exception is kept.\<close>

fun format_exc :: "exn \<Rightarrow> string" where
  "format_exc CalledProcessError = ''Traceback: subprocess.CalledProcessError''"
| "format_exc OSError = ''Traceback: OSError''"
| "format_exc ValueError = ''Traceback: ValueError''"
| "format_exc KeyboardInterrupt = ''Traceback: KeyboardInterrupt''"
| "format_exc (OtherError n) = ''Traceback: '' @ n"

text \<open>A regular file: what it holds and when it was last written.\<close>

record regfile =
  content :: string
  mtime :: nat

type_synonym dir = "string \<rightharpoonup> regfile"

text \<open>The dict that \<^verbatim>\<open>update_extension\<close> dumps to \<^verbatim>\<open>gitinfo.json\<close>.\<close>

record git_info =
  gi_head :: string
  gi_headSHA1 :: string
  gi_headCommitDate :: string
  gi_branch :: string
  gi_remoteURL :: string

text \<open>
  A local clone under \<^verbatim>\<open>EXT_PATH\<close>: the four files of it that the Python code
  itself reads or writes (\<open>None\<close>: no such file). The JSON text of
  \<^verbatim>\<open>gitinfo.json\<close> is not modelled, the file holds the dict. Everything else of
  the clone (objects, refs, the rest of the working tree) is part of the
  outside world.
\<close>

record mirror =
  head_file :: "string option"
  composer_json :: "string option"
  gitinfo_json :: "git_info option"
  version_file :: "string option"

datatype level = DEBUG | INFO | WARNING | ERROR

datatype pid_file_state = Absent | Unreadable | Holds string

text \<open>
  The state: the outside world \<open>'w\<close> (network, clock, process table, git's own
  data), the file at \<^verbatim>\<open>PID_FILE\<close>, the lines logged to \<^verbatim>\<open>LOG_FILE\<close>, the
  directories \<^verbatim>\<open>EXT_PATH\<close> (its regular files and its clones, by name) and
  \<^verbatim>\<open>DIST_PATH\<close> (its regular files), and the two lazily loaded attributes of the
  object. The configured paths are taken to be absolute and distinct, none inside
  a clone; repository and branch names are single path components, and no clone
  is itself named like a tarball.
\<close>

record 'w world =
  outside :: 'w
  pid_file :: pid_file_state
  log_file :: "(level \<times> string) list"
  ext_isdir :: bool
  dist_isdir :: bool
  ext_files :: dir
  mirrors :: "string \<rightharpoonup> mirror"
  dist :: dir
  repo_list_cache :: "string list option"
  extension_config :: "string list option"

text \<open>
  The configuration the code reads. \<^verbatim>\<open>GIT_URL\<close> is a format string with one
  \<^verbatim>\<open>%s\<close>: the text before it and the text after it.
\<close>

record conf =
  GIT_URL :: "string \<times> string"
  COMPOSER :: "string option"
  REPO_TYPE :: string

text \<open>
  What the script does not decide itself. Each external command gets the outside
  world and the part of the file system it works on, and gives back its output
  or the exception \<^verbatim>\<open>subprocess.check_output\<close> raises, with what it left behind:
  \<^item> \<open>proc\<close>: a command run inside a clone (git, composer, date);
  \<^item> \<open>clone\<close>: \<^verbatim>\<open>git clone\<close> in \<^verbatim>\<open>EXT_PATH\<close>, which may create the clone;
  \<^item> \<open>tar\<close>: \<^verbatim>\<open>tar\<close> in \<^verbatim>\<open>EXT_PATH\<close>, which may write the archive file;
  \<^item> \<open>mkdir\<close>: \<^verbatim>\<open>mkdir -p\<close>;
  \<^item> \<open>kill0\<close>: \<^verbatim>\<open>os.kill(pid, 0)\<close>, \<open>None\<close> when the signal could be sent;
  \<^item> \<open>getpid\<close>, \<open>randint\<close>: \<^verbatim>\<open>os.getpid()\<close>, \<^verbatim>\<open>random.randint(0, 99)\<close>;
  \<^item> \<open>api_repos\<close>, \<open>api_snapshots\<close>: the two API requests;
  \<^item> \<open>json_has_require\<close>: \<^verbatim>\<open>json.load\<close> followed by \<^verbatim>\<open>'require' in d\<close>;
  \<^item> \<open>re_class\<close>: whether a character is in a bracket expression of a glob.
\<close>

record 'w env =
  proc :: "string list \<Rightarrow> string \<Rightarrow> 'w \<Rightarrow> mirror \<Rightarrow> (exn + string) \<times> 'w \<times> mirror"
  clone :: "string list \<Rightarrow> 'w \<Rightarrow> (exn + string) \<times> 'w \<times> mirror option"
  tar :: "string list \<Rightarrow> 'w \<Rightarrow> mirror option \<Rightarrow> (exn + string) \<times> 'w \<times> regfile option"
  mkdir :: "string list \<Rightarrow> 'w \<Rightarrow> (exn + string) \<times> 'w"
  kill0 :: "int \<Rightarrow> 'w \<Rightarrow> exn option"
  getpid :: "'w \<Rightarrow> nat"
  randint :: "'w \<Rightarrow> nat \<times> 'w"
  api_repos :: "'w \<Rightarrow> (exn + string list) \<times> 'w"
  api_snapshots :: "'w \<Rightarrow> (exn + string list) \<times> 'w"
  json_has_require :: "string \<Rightarrow> exn + bool"
  re_class :: "string \<Rightarrow> char \<Rightarrow> bool"

subsection \<open>Statements that may raise\<close>

type_synonym ('w, 'a) prog = "'w world \<Rightarrow> (exn + 'a) \<times> 'w world"

definition ret :: "'a \<Rightarrow> ('w, 'a) prog" where
  "ret a s = (Inr a, s)"

definition andthen :: "('w, 'a) prog \<Rightarrow> ('a \<Rightarrow> ('w, 'b) prog) \<Rightarrow> ('w, 'b) prog" where
  "andthen m k s = (case m s of (Inl e, s') \<Rightarrow> (Inl e, s') | (Inr a, s') \<Rightarrow> k a s')"

text \<open>A statement that cannot raise.\<close>

definition effect :: "('w world \<Rightarrow> 'w world) \<Rightarrow> ('w, unit) prog" where
  "effect f s = (Inr (), f s)"

text \<open>Statements one after the other, their values dropped.\<close>

fun run_all :: "('w, 'a) prog list \<Rightarrow> ('w, unit) prog" where
  "run_all [] s = (Inr (), s)"
| "run_all (m # ms) s = (case m s of (Inl e, s') \<Rightarrow> (Inl e, s') | (Inr _, s') \<Rightarrow> run_all ms s')"

text \<open>\<^verbatim>\<open>try: m  except subprocess.CalledProcessError: h\<close>, followed by \<open>k\<close>.\<close>

definition try_except :: "('w, 'a) prog \<Rightarrow> ('w, 'b) prog \<Rightarrow> ('a \<Rightarrow> ('w, 'b) prog) \<Rightarrow> ('w, 'b) prog" where
  "try_except m h k s =
     (case m s of
        (Inl CalledProcessError, s') \<Rightarrow> h s'
      | (Inl e, s') \<Rightarrow> (Inl e, s')
      | (Inr a, s') \<Rightarrow> k a s')"

definition logging :: "level \<Rightarrow> string \<Rightarrow> 'w world \<Rightarrow> 'w world" where
  "logging lv msg s = s\<lparr>log_file := log_file s @ [(lv, msg)]\<rparr>"

subsection \<open>\<^verbatim>\<open>shell_exec\<close>\<close>

text \<open>
  \<^verbatim>\<open>shell_exec\<close> with the current directory (or \<^verbatim>\<open>cwd=\<close>) inside the clone
  \<open>ext\<close>. A missing directory is an \<^verbatim>\<open>OSError\<close>.
\<close>

definition shell_exec :: "'w env \<Rightarrow> string \<Rightarrow> string list \<Rightarrow> ('w, string) prog" where
  "shell_exec env ext args s =
     (case mirrors s ext of
        None \<Rightarrow> (Inl OSError, s)
      | Some m \<Rightarrow>
          (case proc env args ext (outside s) m of
             (r, w, m') \<Rightarrow> (r, s\<lparr>outside := w, mirrors := (mirrors s)(ext \<mapsto> m')\<rparr>)))"

text \<open>\<^verbatim>\<open>shell_exec(['git', 'clone', repo_url, ext])\<close> in \<^verbatim>\<open>EXT_PATH\<close>.\<close>

definition shell_exec_clone :: "'w env \<Rightarrow> string \<Rightarrow> string list \<Rightarrow> ('w, string) prog" where
  "shell_exec_clone env ext args s =
     (case clone env args (outside s) of
        (r, w, mo) \<Rightarrow>
          (r, s\<lparr>outside := w,
                mirrors := (case mo of None \<Rightarrow> mirrors s | Some m \<Rightarrow> (mirrors s)(ext \<mapsto> m))\<rparr>))"

text \<open>\<^verbatim>\<open>shell_exec(['tar', ..., fname, ext])\<close> in \<^verbatim>\<open>EXT_PATH\<close>.\<close>

definition shell_exec_tar :: "'w env \<Rightarrow> string \<Rightarrow> string \<Rightarrow> string list \<Rightarrow> ('w, string) prog" where
  "shell_exec_tar env fname ext args s =
     (case tar env args (outside s) (mirrors s ext) of
        (r, w, fo) \<Rightarrow>
          (r, s\<lparr>outside := w,
                ext_files := (case fo of None \<Rightarrow> ext_files s | Some f \<Rightarrow> (ext_files s)(fname \<mapsto> f))\<rparr>))"


text \<open>\<^verbatim>\<open>os.chdir(full_path)\<close> and \<^verbatim>\<open>os.chdir(self.EXT_PATH)\<close>\<close>

definition chdir_mirror :: "string \<Rightarrow> ('w, unit) prog" where
  "chdir_mirror ext s = (if mirrors s ext = None then (Inl OSError, s) else (Inr (), s))"

definition chdir_ext_path :: "('w, unit) prog" where
  "chdir_ext_path s = (if ext_isdir s then (Inr (), s) else (Inl OSError, s))"

text \<open>Writing a file of the clone in the current directory.\<close>

definition write_mirror :: "string \<Rightarrow> (mirror \<Rightarrow> mirror) \<Rightarrow> ('w, unit) prog" where
  "write_mirror ext f s =
     (case mirrors s ext of
        None \<Rightarrow> (Inl OSError, s)
      | Some m \<Rightarrow> (Inr (), s\<lparr>mirrors := (mirrors s)(ext \<mapsto> f m)\<rparr>))"

subsection \<open>\<^verbatim>\<open>check_pid\<close>, \<^verbatim>\<open>create_pid_file\<close> and \<^verbatim>\<open>init\<close>\<close>






subsection \<open>The lazily loaded lists\<close>


definition supported_versions :: "'w env \<Rightarrow> ('w, string list) prog" where
  "supported_versions env s =
     (case extension_config s of
        Some vs \<Rightarrow> (Inr vs, s)
      | None \<Rightarrow>
          (case api_snapshots env (outside s) of
             (Inl e, w) \<Rightarrow>
               (Inl e, (logging DEBUG ''Fetching ExtensionDistributor config from API...'' s)
                         \<lparr>outside := w\<rparr>)
           | (Inr vs, w) \<Rightarrow>
               (Inr vs, (logging DEBUG ''Fetching ExtensionDistributor config from API...'' s)
                          \<lparr>outside := w, extension_config := Some vs\<rparr>)))"

subsection \<open>\<^verbatim>\<open>update_extension\<close>, block by block\<close>

definition tarball_fname :: "string \<Rightarrow> string \<Rightarrow> string" where
  "tarball_fname ext branch = ext @ ''-'' @ branch @ ''.tar.gz''"

definition repo_url :: "conf \<Rightarrow> string \<Rightarrow> string" where
  "repo_url cf ext = fst (GIT_URL cf) @ ext @ snd (GIT_URL cf)"

text \<open>\<^verbatim>\<open>os.path.exists(full_path)\<close>\<close>

definition path_exists :: "'w world \<Rightarrow> string \<Rightarrow> bool" where
  "path_exists s ext = (mirrors s ext \<noteq> None \<or> ext_files s ext \<noteq> None)"

text \<open>Lines 149 to 153: clone when there is nothing at \<^verbatim>\<open>full_path\<close>.\<close>

definition ensure_clone :: "'w env \<Rightarrow> conf \<Rightarrow> string \<Rightarrow> ('w, unit) prog" where
  "ensure_clone env cf ext s =
     (if \<not> path_exists s ext then
        run_all [andthen chdir_ext_path (\<lambda>_. effect (logging DEBUG (''Cloning '' @ ext))),
                 andthen (shell_exec_clone env ext [''git'', ''clone'', repo_url cf ext, ext])
                   (\<lambda>_. ret ())] s
      else (Inr (), s))"

text \<open>Lines 155 to 160: enter the clone, point it at the URL, fetch.\<close>

definition fetch_remote :: "'w env \<Rightarrow> conf \<Rightarrow> string \<Rightarrow> string \<Rightarrow> ('w, unit) prog" where
  "fetch_remote env cf ext branch =
     run_all [andthen (chdir_mirror ext)
                (\<lambda>_. andthen (effect (logging INFO (''Creating '' @ branch @ '' for '' @ ext)))
                        (\<lambda>_. ret [])),
              shell_exec env ext [''git'', ''remote'', ''set-url'', ''origin'', repo_url cf ext],
              shell_exec env ext [''git'', ''fetch'']]"

text \<open>Lines 162 to 167: the three commands inside the \<^verbatim>\<open>try\<close>.\<close>

definition checkout :: "'w env \<Rightarrow> string \<Rightarrow> string \<Rightarrow> ('w, unit) prog" where
  "checkout env ext branch =
     run_all [shell_exec env ext [''git'', ''reset'', ''--hard'', ''origin/master''],
              shell_exec env ext [''git'', ''clean'', ''-ffdx''],
              shell_exec env ext [''git'', ''checkout'', ''origin/'' @ branch]]"

text \<open>Lines 172 to 179: clean again, bring the submodules in, read the short hash.\<close>

definition clean_checkout :: "'w env \<Rightarrow> string \<Rightarrow> ('w, string) prog" where
  "clean_checkout env ext =
     andthen (run_all [shell_exec env ext [''git'', ''clean'', ''-ffd''],
                       shell_exec env ext [''git'', ''submodule'', ''sync''],
                       shell_exec env ext [''git'', ''submodule'', ''update'', ''--init'']])
       (\<lambda>_. andthen (shell_exec env ext [''git'', ''rev-parse'', ''--short=7'', ''HEAD''])
               (\<lambda>out. ret (py_strip out)))"

text \<open>Lines 185 to 194: \<^verbatim>\<open>composer install\<close>, whose failure is only logged.\<close>

definition composer_install :: "'w env \<Rightarrow> conf \<Rightarrow> string \<Rightarrow> ('w, unit) prog" where
  "composer_install env cf ext s =
     (case COMPOSER cf of
        None \<Rightarrow> (Inr (), s)
      | Some c \<Rightarrow>
          if c = [] then (Inr (), s)
          else
            (case Option.bind (mirrors s ext) composer_json of
               None \<Rightarrow> (Inr (), s)
             | Some txt \<Rightarrow>
                 (case json_has_require env txt of
                    Inl e \<Rightarrow> (Inl e, s)
                  | Inr False \<Rightarrow> (Inr (), s)
                  | Inr True \<Rightarrow>
                      try_except
                        (shell_exec env ext [c, ''install'', ''--no-dev'', ''--ignore-platform-reqs''])
                        (effect (\<lambda>s. logging ERROR ''composer install failed''
                                        (logging ERROR (format_exc CalledProcessError) s)))
                        (\<lambda>_. ret ())
                        (logging DEBUG (''Running composer install for '' @ ext) s))))"

text \<open>Lines 199 to 201 and 205 to 209: the two derived fields of the dict.\<close>

definition strip_ref :: "string \<Rightarrow> string" where
  "strip_ref head = (if py_startswith head ''ref:'' then drop 5 head else head)"

definition branch_of_head :: "string \<Rightarrow> string" where
  "branch_of_head head =
     (if py_startswith head ''refs/heads'' then last (py_split (CHR ''/'') head) else head)"

text \<open>Lines 196 to 212: \<^verbatim>\<open>gitinfo.json\<close>.\<close>

definition write_gitinfo :: "'w env \<Rightarrow> conf \<Rightarrow> string \<Rightarrow> ('w, unit) prog" where
  "write_gitinfo env cf ext s =
     (case Option.bind (mirrors s ext) head_file of
        None \<Rightarrow> (Inl OSError, s)
      | Some raw \<Rightarrow>
          andthen (shell_exec env ext [''git'', ''rev-parse'', ''HEAD''])
            (\<lambda>sha. andthen (shell_exec env ext
                              [''git'', ''show'', ''-s'', ''--format=format:%ct'', ''HEAD''])
            (\<lambda>date. write_mirror ext
                      (\<lambda>m. m\<lparr>gitinfo_json :=
                               Some \<lparr>gi_head = strip_ref raw,
                                     gi_headSHA1 = sha,
                                     gi_headCommitDate = date,
                                     gi_branch = branch_of_head (strip_ref raw),
                                     gi_remoteURL = repo_url cf ext\<rparr>\<rparr>))) s)"

text \<open>
  Lines 216 to 219: the \<^verbatim>\<open>version\<close> file. It is opened (and so emptied) and its
  first line written before \<^verbatim>\<open>date\<close> runs.
\<close>

definition write_version :: "'w env \<Rightarrow> string \<Rightarrow> string \<Rightarrow> string \<Rightarrow> ('w, unit) prog" where
  "write_version env ext branch revision =
     andthen (write_mirror ext (\<lambda>m. m\<lparr>version_file := Some (ext @ '': '' @ branch @ ''\<newline>'')\<rparr>))
       (\<lambda>_. andthen (shell_exec env ext [''date'', ''+%Y-%m-%dT%H:%M:%S''])
       (\<lambda>now. write_mirror ext
                 (\<lambda>m. m\<lparr>version_file :=
                          Some (ext @ '': '' @ branch @ ''\<newline>'' @ now @ ''\<newline>''
                                @ revision @ ''\<newline>'')\<rparr>)))"

text \<open>
  \<^verbatim>\<open>glob.glob\<close> on a directory, as the test whether a name is among those it
  lists, and a loop that unlinks each of the names listed. The names are distinct
  and each turn of the loop touches its own name only, so the loop is written as
  one update of the directory.
\<close>

definition glob :: "'w env \<Rightarrow> dir \<Rightarrow> string \<Rightarrow> string \<Rightarrow> bool" where
  "glob env d pat n = (d n \<noteq> None \<and> glob_match (re_class env) pat n)"

definition unlink_all :: "(string \<Rightarrow> bool) \<Rightarrow> dir \<Rightarrow> dir" where
  "unlink_all ns d = (\<lambda>n. if ns n then None else d n)"

text \<open>Lines 220 to 224: the old tarballs of this branch are deleted.\<close>

definition delete_old_tarballs :: "'w env \<Rightarrow> string \<Rightarrow> string \<Rightarrow> 'w world \<Rightarrow> 'w world" where
  "delete_old_tarballs env ext branch s =
     (let old_tarballs = glob env (dist s) (ext @ ''-'' @ branch @ ''-*.tar.gz'');
          s1 = logging DEBUG ''Deleting old tarballs...'' s
      in s1\<lparr>dist := unlink_all old_tarballs (dist s1)\<rparr>)"

text \<open>Lines 225 to 227: the new tarball is made in \<^verbatim>\<open>EXT_PATH\<close>.\<close>

definition create_tarball :: "'w env \<Rightarrow> string \<Rightarrow> string \<Rightarrow> ('w, unit) prog" where
  "create_tarball env ext branch =
     andthen chdir_ext_path
       (\<lambda>_. andthen (shell_exec_tar env (tarball_fname ext branch) ext
                       [''tar'', ''--exclude'', ''.git'', ''-czhPf'', tarball_fname ext branch, ext])
               (\<lambda>_. ret ()))"

text \<open>
  Lines 228 to 232: every \<^verbatim>\<open>*.tar.gz\<close> entry of \<^verbatim>\<open>EXT_PATH\<close> is moved to
  \<^verbatim>\<open>DIST_PATH\<close> under its own name, replacing what is there.
\<close>

definition move_tarballs :: "'w env \<Rightarrow> 'w world \<Rightarrow> 'w world" where
  "move_tarballs env s =
     (let s1 = logging DEBUG ''Moving new tarballs into dist/'' s;
          tarballs = glob env (ext_files s1) ''*.tar.gz''
      in s1\<lparr>dist := (\<lambda>n. if tarballs n then ext_files s1 n else dist s1 n),
            ext_files := unlink_all tarballs (ext_files s1)\<rparr>)"

text \<open>How one turn of the loop over the branches ends when it does not raise.\<close>

datatype branch_outcome = CheckoutSkipped | AlreadyPublished | Built

text \<open>Lines 185 to 227: what is done for a branch that needs a new tarball.\<close>

definition build :: "'w env \<Rightarrow> conf \<Rightarrow> string \<Rightarrow> string \<Rightarrow> string \<Rightarrow> ('w, branch_outcome) prog" where
  "build env cf ext branch revision =
     andthen (run_all [composer_install env cf ext,
                       write_gitinfo env cf ext,
                       write_version env ext branch revision,
                       effect (delete_old_tarballs env ext branch),
                       create_tarball env ext branch])
       (\<lambda>_. ret Built)"

text \<open>Lines 155 to 227: the body of the loop over the branches.\<close>

definition update_branch ::
  "'w env \<Rightarrow> conf \<Rightarrow> bool \<Rightarrow> string \<Rightarrow> string \<Rightarrow> ('w, branch_outcome) prog" where
  "update_branch env cf force ext branch =
     andthen (fetch_remote env cf ext branch)
       (\<lambda>_. try_except (checkout env ext branch)
               (andthen (effect (logging WARNING (''could not checkout origin/'' @ branch)))
                  (\<lambda>_. ret CheckoutSkipped))
               (\<lambda>_. andthen (clean_checkout env ext)
                       (\<lambda>revision s.
                          if \<not> force \<and> dist s (tarball_fname ext branch) \<noteq> None
                          then (Inr AlreadyPublished,
                                logging DEBUG ''No updates to branch, tarball already exists.'' s)
                          else build env cf ext branch revision s)))"

fun update_branches ::
  "'w env \<Rightarrow> conf \<Rightarrow> bool \<Rightarrow> string \<Rightarrow> string list \<Rightarrow> ('w, unit) prog" where
  "update_branches env cf force ext [] s = (Inr (), s)"
| "update_branches env cf force ext (b # bs) s =
     (case update_branch env cf force ext b s of
        (Inl e, s') \<Rightarrow> (Inl e, s')
      | (Inr _, s') \<Rightarrow> update_branches env cf force ext bs s')"

text \<open>\<^verbatim>\<open>versions or self.supported_versions\<close>\<close>

definition branches_of :: "'w env \<Rightarrow> string list option \<Rightarrow> ('w, string list) prog" where
  "branches_of env versions =
     (case versions of
        Some (v # vs) \<Rightarrow> ret (v # vs)
      | _ \<Rightarrow> supported_versions env)"

text \<open>Lines 235 to 237: \<^verbatim>\<open>git gc\<close>, one time in a hundred.\<close>

definition maybe_gc :: "'w env \<Rightarrow> string \<Rightarrow> ('w, unit) prog" where
  "maybe_gc env ext s =
     (case randint env (outside s) of
        (n, w) \<Rightarrow>
          if n = 0 then andthen (shell_exec env ext [''git'', ''gc'']) (\<lambda>_. ret ()) (s\<lparr>outside := w\<rparr>)
          else (Inr (), s\<lparr>outside := w\<rparr>))"

definition update_extension ::
  "'w env \<Rightarrow> conf \<Rightarrow> bool \<Rightarrow> string \<Rightarrow> string list option \<Rightarrow> ('w, unit) prog" where
  "update_extension env cf force ext versions =
     andthen (effect (logging INFO (''Starting update for '' @ ext)))
       (\<lambda>_. andthen (ensure_clone env cf ext)
       (\<lambda>_. andthen (branches_of env versions)
       (\<lambda>bs. andthen (update_branches env cf force ext bs)
       (\<lambda>_. andthen (effect (\<lambda>s. logging INFO (''Finished update for '' @ ext) (move_tarballs env s)))
       (\<lambda>_. maybe_gc env ext)))))"

subsection \<open>\<^verbatim>\<open>run\<close>\<close>



subsection \<open>Auxiliary notions\<close>


text \<open>
  A statement keeps an observation \<open>f\<close> of the state when running it never changes
  \<open>f\<close>, whether it raises or not. The observations of interest do not depend on
  the outside world, the clones, the log or the cached branch list.
\<close>

definition keeps :: "('w world \<Rightarrow> 'x) \<Rightarrow> ('w, 'a) prog \<Rightarrow> bool" where
  "keeps f m = (\<forall>s. f (snd (m s)) = f s)"

definition frame_ok :: "('w world \<Rightarrow> 'x) \<Rightarrow> bool" where
  "frame_ok f =
     ((\<forall>s w. f (s\<lparr>outside := w\<rparr>) = f s) \<and> (\<forall>s ms. f (s\<lparr>mirrors := ms\<rparr>) = f s) \<and>
      (\<forall>s l. f (s\<lparr>log_file := l\<rparr>) = f s) \<and> (\<forall>s c. f (s\<lparr>extension_config := c\<rparr>) = f s))"

subsection \<open>A concrete environment and concrete states\<close>

text \<open>
  A stand-in for the external programmes, for evaluating the script on concrete
  inputs: the outside world is a counter that every command advances, a command
  inside a clone answers as the function \<open>res\<close> says and leaves the clone alone,
  \<^verbatim>\<open>git clone\<close> makes a clone with a detached \<^verbatim>\<open>HEAD\<close>, \<^verbatim>\<open>tar\<close> writes an archive
  stamped with the counter, process 4242 is the only live one, and the script
  itself is process 100.
\<close>

definition stub_env :: "(string list \<Rightarrow> string \<Rightarrow> nat \<Rightarrow> exn + string) \<Rightarrow> nat env" where
  "stub_env res =
     \<lparr>proc = (\<lambda>args ext w m. (res args ext w, Suc w, m)),
      clone = (\<lambda>args w.
                 (case res args [] w of
                    Inl e \<Rightarrow> (Inl e, Suc w, None)
                  | Inr out \<Rightarrow>
                      (Inr out, Suc w,
                       Some \<lparr>head_file = Some ''0123456789abcdef0123456789abcdef01234567\<newline>'',
                             composer_json = None, gitinfo_json = None,
                             version_file = None\<rparr>))),
      tar = (\<lambda>args w mo.
               (case mo of
                  None \<Rightarrow> (Inl CalledProcessError, Suc w, None)
                | Some m \<Rightarrow> (Inr [], Suc w, Some \<lparr>content = concat args, mtime = w\<rparr>))),
      mkdir = (\<lambda>args w. (Inr [], Suc w)),
      kill0 = (\<lambda>pid w. if pid = 4242 then None else Some OSError),
      getpid = (\<lambda>w. 100),
      randint = (\<lambda>w. (1, w)),
      api_repos = (\<lambda>w. (Inr [''Foo''], Suc w)),
      api_snapshots = (\<lambda>w. (Inr [''REL1_39''], Suc w)),
      json_has_require = (\<lambda>txt. Inr False),
      re_class = (\<lambda>k c. c \<in> set k)\<rparr>"

definition git_succeeds :: "string list \<Rightarrow> string \<Rightarrow> nat \<Rightarrow> exn + string" where
  "git_succeeds args ext w =
     (if args = [''git'', ''rev-parse'', ''--short=7'', ''HEAD''] then Inr ''abc1234\<newline>''
      else Inr [])"

definition stub_conf :: conf where
  "stub_conf = \<lparr>GIT_URL = (''https://git.example/'', ''.git''), COMPOSER = None,
                REPO_TYPE = ''extensions''\<rparr>"

definition empty_world :: "nat world" where
  "empty_world =
     \<lparr>outside = 0, pid_file = Absent, log_file = [], ext_isdir = True, dist_isdir = True,
      ext_files = Map.empty, mirrors = Map.empty, dist = Map.empty,
      repo_list_cache = None, extension_config = None\<rparr>"

text \<open>A state with one clone, \<^verbatim>\<open>Foo\<close>, whose \<^verbatim>\<open>.git/HEAD\<close> holds \<open>raw\<close>.\<close>

definition cloned_world :: "string \<Rightarrow> nat world" where
  "cloned_world raw =
     empty_world\<lparr>mirrors := [''Foo'' \<mapsto> \<lparr>head_file = Some raw, composer_json = None,
                                          gitinfo_json = None, version_file = None\<rparr>]\<rparr>"

text \<open>The same with a tarball of branch \<^verbatim>\<open>REL1_39\<close> already published.\<close>

definition published_world :: "nat world" where
  "published_world =
     (cloned_world ''0123456789abcdef0123456789abcdef01234567\<newline>'')
       \<lparr>dist := [''Foo-REL1_39.tar.gz'' \<mapsto> \<lparr>content = ''old archive'', mtime = 7\<rparr>]\<rparr>"

text \<open>A git that needs eight digits to abbreviate \<^verbatim>\<open>HEAD\<close> unambiguously.\<close>

definition git_long_abbrev :: "string list \<Rightarrow> string \<Rightarrow> nat \<Rightarrow> exn + string" where
  "git_long_abbrev args ext w =
     (if args = [''git'', ''rev-parse'', ''--short=7'', ''HEAD''] then Inr ''1a2b3c4d\<newline>''
      else Inr [])"

text \<open>
  Two more gits: one whose baseline reset fails while the counter is below 5,
  and one that raises \<open>e\<close> whenever it is run with the arguments \<open>a\<close>.
\<close>

definition git_reset_fails_once :: "string list \<Rightarrow> string \<Rightarrow> nat \<Rightarrow> exn + string" where
  "git_reset_fails_once args ext w =
     (if args = [''git'', ''reset'', ''--hard'', ''origin/master''] \<and> w < 5
      then Inl CalledProcessError
      else git_succeeds args ext w)"

definition git_fails_at :: "string list \<Rightarrow> exn \<Rightarrow> string list \<Rightarrow> string \<Rightarrow> nat \<Rightarrow> exn + string" where
  "git_fails_at a e args ext w = (if args = a then Inl e else git_succeeds args ext w)"



section \<open>Properties\<close>

subsection \<open>Strings and globs\<close>

lemma py_split_nonempty: "py_split c s \<noteq> []"
  by (induction s) (auto split: list.splits)

lemma py_split_no_sep: "c \<notin> set seg \<Longrightarrow> py_split c seg = [seg]"
  by (induction seg) auto

lemma py_split_sep_tl: "c \<in> set s \<Longrightarrow> tl (py_split c s) \<noteq> []"
  using py_split_nonempty [of c]
  by (induction s) (auto split: list.splits)

lemma last_py_split: "c \<notin> set seg \<Longrightarrow> last (py_split c (p @ c # seg)) = seg"
proof (induction p)
  case Nil
  then show ?case by (simp add: py_split_no_sep)
next
  case (Cons x p)
  have "tl (py_split c (p @ c # seg)) \<noteq> []"
    by (rule py_split_sep_tl) simp
  with Cons show ?case
    by (auto split: list.splits)
qed








subsection \<open>What the blocks of \<^verbatim>\<open>update_extension\<close> leave alone\<close>

lemma frame_ok_dist: "frame_ok dist"
  by (simp add: frame_ok_def)


lemma keepsD: "keeps f m \<Longrightarrow> m s = (r, s') \<Longrightarrow> f s' = f s"
  by (auto simp: keeps_def dest: spec [where x = s])

lemma keeps_ret: "keeps f (ret a)"
  by (simp add: keeps_def ret_def)

lemma keeps_effect: "(\<And>s. f (g s) = f s) \<Longrightarrow> keeps f (effect g)"
  by (simp add: keeps_def effect_def)

lemma keeps_andthen: "keeps f m \<Longrightarrow> (\<And>a. keeps f (k a)) \<Longrightarrow> keeps f (andthen m k)"
  unfolding keeps_def andthen_def
  by (auto split: prod.splits sum.splits) (metis snd_conv)+

lemma keeps_run_all: "(\<And>m. m \<in> set ms \<Longrightarrow> keeps f m) \<Longrightarrow> keeps f (run_all ms)"
proof (induction ms)
  case Nil
  show ?case by (simp add: keeps_def)
next
  case (Cons m ms)
  have a: "keeps f m" and b: "keeps f (run_all ms)"
    using Cons by auto
  show ?case
    unfolding keeps_def
  proof
    fix s
    show "f (snd (run_all (m # ms) s)) = f s"
      using keepsD [OF a, of s] keepsD [OF b]
      by (cases "m s") (auto split: sum.splits simp: keeps_def, metis b keeps_def snd_conv)
  qed
qed


lemma logging_frame: "frame_ok f \<Longrightarrow> f (logging lv msg s) = f s"
  by (simp add: frame_ok_def logging_def)

lemma keeps_shell_exec: "frame_ok f \<Longrightarrow> keeps f (shell_exec env ext args)"
  by (auto simp: keeps_def shell_exec_def frame_ok_def split: option.splits prod.splits)


lemma keeps_chdir_mirror: "keeps f (chdir_mirror ext)"
  by (simp add: keeps_def chdir_mirror_def)


lemma keeps_fetch_remote: "frame_ok f \<Longrightarrow> keeps f (fetch_remote env cf ext b)"
  unfolding fetch_remote_def
  by (intro keeps_run_all)
     (auto intro!: keeps_andthen keeps_chdir_mirror keeps_effect keeps_ret keeps_shell_exec
           simp: logging_frame)

lemma keeps_checkout: "frame_ok f \<Longrightarrow> keeps f (checkout env ext b)"
  unfolding checkout_def
  by (intro keeps_run_all) (auto intro!: keeps_shell_exec)

lemma keeps_clean_checkout: "frame_ok f \<Longrightarrow> keeps f (clean_checkout env ext)"
  unfolding clean_checkout_def
  by (intro keeps_andthen keeps_run_all keeps_ret) (auto intro!: keeps_shell_exec)





lemma update_branch_unfold:
  "update_branch env cf force ext b s =
     (case fetch_remote env cf ext b s of
        (Inl e, s1) \<Rightarrow> (Inl e, s1)
      | (Inr _, s1) \<Rightarrow>
          (case checkout env ext b s1 of
             (Inl CalledProcessError, s2) \<Rightarrow>
               (Inr CheckoutSkipped, logging WARNING (''could not checkout origin/'' @ b) s2)
           | (Inl e, s2) \<Rightarrow> (Inl e, s2)
           | (Inr _, s2) \<Rightarrow>
               (case clean_checkout env ext s2 of
                  (Inl e, s3) \<Rightarrow> (Inl e, s3)
                | (Inr rv, s3) \<Rightarrow>
                    if \<not> force \<and> dist s3 (tarball_fname ext b) \<noteq> None
                    then (Inr AlreadyPublished,
                          logging DEBUG ''No updates to branch, tarball already exists.'' s3)
                    else build env cf ext b rv s3)))"
  by (simp add: update_branch_def andthen_def try_except_def effect_def ret_def
           split: prod.splits sum.splits exn.splits)


lemma pair_of_fst: "fst p = a \<Longrightarrow> p = (a, snd p)"
  by (cases p) simp


lemma write_gitinfo_result:
  assumes "write_gitinfo env cf ext s = (Inr (), s')"
  shows "\<exists>raw m sha date. Option.bind (mirrors s ext) head_file = Some raw \<and>
           mirrors s' ext = Some m \<and>
           gitinfo_json m = Some \<lparr>gi_head = strip_ref raw, gi_headSHA1 = sha,
                                  gi_headCommitDate = date,
                                  gi_branch = branch_of_head (strip_ref raw),
                                  gi_remoteURL = repo_url cf ext\<rparr>"
  using assms
  by (auto simp: write_gitinfo_def andthen_def write_mirror_def
           split: option.splits prod.splits sum.splits)

lemma py_startswith_append: "py_startswith (p @ x) p"
  by (simp add: py_startswith_def)

lemma strip_ref_symbolic: "strip_ref (''ref: '' @ h) = h"
  by (simp add: strip_ref_def py_startswith_def)

lemma branch_of_head_refs_heads:
  assumes "CHR ''/'' \<notin> set seg"
  shows "branch_of_head (''refs/heads'' @ CHR ''/'' # seg) = seg"
  unfolding branch_of_head_def
  by (simp only: py_startswith_append if_True last_py_split [OF assms])

lemma branch_of_head_symbolic:
  assumes "CHR ''/'' \<notin> set seg"
  shows "branch_of_head (strip_ref (''ref: refs/heads/'' @ seg)) = seg"
proof -
  have "''ref: refs/heads/'' @ seg = ''ref: '' @ (''refs/heads'' @ CHR ''/'' # seg)"
    by simp
  then show ?thesis
    by (simp only: strip_ref_symbolic branch_of_head_refs_heads [OF assms])
qed

lemma branch_of_head_detached:
  "\<not> py_startswith raw ''ref:'' \<Longrightarrow> \<not> py_startswith raw ''refs/heads'' \<Longrightarrow>
   branch_of_head (strip_ref raw) = raw"
  by (simp only: strip_ref_def branch_of_head_def if_False)

subsection \<open>The lock\<close>







subsection \<open>Provenance\<close>

text \<open>
  Claim C6, as the code has it. \<^verbatim>\<open>gitinfo.json\<close> gets, as \<^verbatim>\<open>head\<close>, the text of
  \<^verbatim>\<open>.git/HEAD\<close> less a leading \<^verbatim>\<open>ref:\<close> marker of five characters, and as
  \<^verbatim>\<open>branch\<close> the branch derived from that value. For a symbolic ref to
  \<^verbatim>\<open>refs/heads/<seg>\<close> the branch is exactly the text after the last slash, to
  the end of the file: it keeps the newline that ends the file. For a detached
  \<^verbatim>\<open>HEAD\<close> the branch is the head value itself.
\<close>

theorem branch_name_keeps_newline:
  assumes "write_gitinfo env cf ext s = (Inr (), s')"
    and "Option.bind (mirrors s ext) head_file = Some raw"
  shows "(\<exists>m gi. mirrors s' ext = Some m \<and> gitinfo_json m = Some gi \<and>
            gi_head gi = strip_ref raw \<and> gi_branch gi = branch_of_head (strip_ref raw))
         \<and> (\<forall>seg. CHR ''/'' \<notin> set seg \<and> raw = ''ref: refs/heads/'' @ seg \<longrightarrow>
               branch_of_head (strip_ref raw) = seg)
         \<and> (\<not> py_startswith raw ''ref:'' \<and> \<not> py_startswith raw ''refs/heads'' \<longrightarrow>
               branch_of_head (strip_ref raw) = raw)"
proof (intro conjI allI impI)
  show "\<exists>m gi. mirrors s' ext = Some m \<and> gitinfo_json m = Some gi \<and>
            gi_head gi = strip_ref raw \<and> gi_branch gi = branch_of_head (strip_ref raw)"
    using write_gitinfo_result [OF assms(1)] assms(2) by auto
next
  fix seg
  assume "CHR ''/'' \<notin> set seg \<and> raw = ''ref: refs/heads/'' @ seg"
  then show "branch_of_head (strip_ref raw) = seg"
    using branch_of_head_symbolic [of seg] by blast
next
  assume "\<not> py_startswith raw ''ref:'' \<and> \<not> py_startswith raw ''refs/heads''"
  then show "branch_of_head (strip_ref raw) = raw"
    using branch_of_head_detached by blast
qed

text \<open>
  The theorem at the \<^verbatim>\<open>HEAD\<close> file git writes for a checkout of \<^verbatim>\<open>main\<close>, and at
  the one it writes for a detached \<^verbatim>\<open>HEAD\<close>.
\<close>

theorem branch_name_keeps_newline_witness:
  "(\<exists>m gi. mirrors (snd (write_gitinfo (stub_env git_succeeds) stub_conf ''Foo''
                (cloned_world ''ref: refs/heads/main\<newline>''))) ''Foo'' = Some m \<and>
      gitinfo_json m = Some gi \<and> gi_branch gi = ''main\<newline>'')
   \<and> (\<exists>m gi. mirrors (snd (write_gitinfo (stub_env git_succeeds) stub_conf ''Foo''
                (cloned_world ''0123456789abcdef0123456789abcdef01234567\<newline>''))) ''Foo'' = Some m \<and>
      gitinfo_json m = Some gi \<and>
      gi_branch gi = ''0123456789abcdef0123456789abcdef01234567\<newline>'')"
proof -
  let ?e = "stub_env git_succeeds"
  let ?w = "cloned_world ''ref: refs/heads/main\<newline>''"
  have f: "fst (write_gitinfo ?e stub_conf ''Foo'' ?w) = Inr ()"
    by code_simp
  have h: "Option.bind (mirrors ?w ''Foo'') head_file = Some ''ref: refs/heads/main\<newline>''"
    by code_simp
  have n: "CHR ''/'' \<notin> set ''main\<newline>'' \<and>
           ''ref: refs/heads/main\<newline>'' = ''ref: refs/heads/'' @ ''main\<newline>''"
    by code_simp
  note t = branch_name_keeps_newline [OF pair_of_fst [OF f] h]
  have b: "branch_of_head (strip_ref ''ref: refs/heads/main\<newline>'') = ''main\<newline>''"
    using t [THEN conjunct2, THEN conjunct1, THEN spec, THEN mp, OF n] .
  have one: "\<exists>m gi. mirrors (snd (write_gitinfo ?e stub_conf ''Foo'' ?w)) ''Foo'' = Some m \<and>
      gitinfo_json m = Some gi \<and> gi_branch gi = ''main\<newline>''"
    using t [THEN conjunct1] unfolding b by blast
  let ?raw = "''0123456789abcdef0123456789abcdef01234567\<newline>''"
  let ?d = "cloned_world ?raw"
  have f': "fst (write_gitinfo ?e stub_conf ''Foo'' ?d) = Inr ()"
    by code_simp
  have h': "Option.bind (mirrors ?d ''Foo'') head_file = Some ?raw"
    by code_simp
  have n': "\<not> py_startswith ?raw ''ref:'' \<and> \<not> py_startswith ?raw ''refs/heads''"
    by code_simp
  note t' = branch_name_keeps_newline [OF pair_of_fst [OF f'] h']
  have b': "branch_of_head (strip_ref ?raw) = ?raw"
    using t' [THEN conjunct2, THEN conjunct2, THEN mp, OF n'] .
  have two: "\<exists>m gi. mirrors (snd (write_gitinfo ?e stub_conf ''Foo'' ?d)) ''Foo'' = Some m \<and>
      gitinfo_json m = Some gi \<and> gi_branch gi = ?raw"
    using t' [THEN conjunct1] unfolding b' by blast
  from one two show ?thesis
    by (intro conjI)
qed

text \<open>
  Against C6 as stated: for \<^verbatim>\<open>HEAD\<close> pointing to \<^verbatim>\<open>refs/heads/main\<close> the derived
  branch is \<^verbatim>\<open>main\<close> followed by a newline, not exactly \<^verbatim>\<open>main\<close>.
\<close>

theorem branch_name_counterexample:
  "branch_of_head (strip_ref ''ref: refs/heads/main\<newline>'') = ''main\<newline>''
   \<and> branch_of_head (strip_ref ''ref: refs/heads/main\<newline>'') \<noteq> ''main''"
  by code_simp

subsection \<open>The short revision\<close>

text \<open>
  Claim C5 at a failing input. The revision is what
  \<^verbatim>\<open>git rev-parse --short=7 HEAD\<close> prints, stripped of white space; the code
  never cuts it. Seven is the least length git uses: when seven digits do not
  name the commit uniquely it prints more, and the revision is then longer than
  seven characters.
\<close>

theorem short_revision_not_cut_to_seven:
  "fst (clean_checkout (stub_env git_long_abbrev) ''Foo''
          (cloned_world ''0123456789abcdef0123456789abcdef01234567\<newline>'')) = Inr ''1a2b3c4d''
   \<and> length ''1a2b3c4d'' = 8"
  by code_simp

subsection \<open>A branch that is already published\<close>

text \<open>
  Claim C7, as the code has it. When the branch has been pinned and its tarball
  is already published, with \<^verbatim>\<open>force\<close> unset, the turn of the loop ends at the
  \<^verbatim>\<open>continue\<close> of line 184: the only thing done after reading the revision is
  one debug line in the log. The lines that write \<^verbatim>\<open>gitinfo.json\<close> and
  \<^verbatim>\<open>version\<close> are not reached, so the clone is as the git commands left it.
\<close>

theorem skip_writes_no_provenance:
  assumes "\<not> force" and "dist s (tarball_fname ext b) \<noteq> None"
    and "fetch_remote env cf ext b s = (Inr (), s1)"
    and "checkout env ext b s1 = (Inr (), s2)"
    and "clean_checkout env ext s2 = (Inr rv, s3)"
  shows "update_branch env cf force ext b s =
           (Inr AlreadyPublished,
            logging DEBUG ''No updates to branch, tarball already exists.'' s3)
         \<and> mirrors (snd (update_branch env cf force ext b s)) = mirrors s3"
proof -
  have "dist s3 = dist s"
    using keepsD [OF keeps_fetch_remote [OF frame_ok_dist] assms(3)]
          keepsD [OF keeps_checkout [OF frame_ok_dist] assms(4)]
          keepsD [OF keeps_clean_checkout [OF frame_ok_dist] assms(5)]
    by simp
  then show ?thesis
    using assms by (simp add: update_branch_unfold logging_def)
qed

text \<open>The theorem at a clone whose tarball for \<^verbatim>\<open>REL1_39\<close> is published.\<close>

theorem skip_writes_no_provenance_witness:
  "update_branch (stub_env git_succeeds) stub_conf False ''Foo'' ''REL1_39'' published_world =
     (Inr AlreadyPublished,
      logging DEBUG ''No updates to branch, tarball already exists.''
        (snd (clean_checkout (stub_env git_succeeds) ''Foo''
           (snd (checkout (stub_env git_succeeds) ''Foo'' ''REL1_39''
              (snd (fetch_remote (stub_env git_succeeds) stub_conf ''Foo'' ''REL1_39''
                      published_world)))))))"
proof -
  let ?e = "stub_env git_succeeds"
  let ?s1 = "snd (fetch_remote ?e stub_conf ''Foo'' ''REL1_39'' published_world)"
  let ?s2 = "snd (checkout ?e ''Foo'' ''REL1_39'' ?s1)"
  have d: "dist published_world (tarball_fname ''Foo'' ''REL1_39'') \<noteq> None"
    by code_simp
  have f1: "fst (fetch_remote ?e stub_conf ''Foo'' ''REL1_39'' published_world) = Inr ()"
    by code_simp
  have f2: "fst (checkout ?e ''Foo'' ''REL1_39'' ?s1) = Inr ()"
    by code_simp
  have f3: "fst (clean_checkout ?e ''Foo'' ?s2) = Inr ''abc1234''"
    by code_simp
  show ?thesis
    using skip_writes_no_provenance [OF _ d pair_of_fst [OF f1] pair_of_fst [OF f2]
            pair_of_fst [OF f3], of False]
    by simp
qed

text \<open>
  Against C7 as stated: the whole update of \<^verbatim>\<open>Foo\<close> for the published branch
  finishes, and the clone has neither a \<^verbatim>\<open>gitinfo.json\<close> nor a \<^verbatim>\<open>version\<close> file
  afterwards.
\<close>

theorem skip_provenance_counterexample:
  "fst (update_extension (stub_env git_succeeds) stub_conf False ''Foo'' (Some [''REL1_39''])
          published_world) = Inr ()
   \<and> Option.bind (mirrors (snd (update_extension (stub_env git_succeeds) stub_conf False ''Foo''
                                   (Some [''REL1_39'']) published_world)) ''Foo'') gitinfo_json = None
   \<and> Option.bind (mirrors (snd (update_extension (stub_env git_succeeds) stub_conf False ''Foo''
                                   (Some [''REL1_39'']) published_world)) ''Foo'') version_file = None
   \<and> (INFO, ''Finished update for Foo'') \<in> set (log_file (snd (update_extension
          (stub_env git_succeeds) stub_conf False ''Foo'' (Some [''REL1_39'']) published_world)))"
  by code_simp

subsection \<open>Failures\<close>

lemma update_branches_step:
  "update_branches env cf force ext (b # bs) s =
     (case fetch_remote env cf ext b s of
        (Inl e, s1) \<Rightarrow> (Inl e, s1)
      | (Inr _, s1) \<Rightarrow>
          (case checkout env ext b s1 of
             (Inl CalledProcessError, s2) \<Rightarrow>
               update_branches env cf force ext bs
                 (logging WARNING (''could not checkout origin/'' @ b) s2)
           | (Inl e, s2) \<Rightarrow> (Inl e, s2)
           | (Inr _, s2) \<Rightarrow>
               (case clean_checkout env ext s2 of
                  (Inl e, s3) \<Rightarrow> (Inl e, s3)
                | (Inr rv, s3) \<Rightarrow>
                    (case (if \<not> force \<and> dist s3 (tarball_fname ext b) \<noteq> None
                           then (Inr AlreadyPublished,
                                 logging DEBUG ''No updates to branch, tarball already exists.'' s3)
                           else build env cf ext b rv s3) of
                       (Inl e, s4) \<Rightarrow> (Inl e, s4)
                     | (Inr _, s4) \<Rightarrow> update_branches env cf force ext bs s4))))"
  by (simp add: update_branch_unfold split: prod.splits sum.splits exn.splits)

lemma checkout_reset_raises:
  "shell_exec env ext [''git'', ''reset'', ''--hard'', ''origin/master''] s1 = (Inl e, s2) \<Longrightarrow>
   checkout env ext b s1 = (Inl e, s2)"
  by (simp add: checkout_def)

lemma checkout_checkout_raises:
  "shell_exec env ext [''git'', ''reset'', ''--hard'', ''origin/master''] s1 = (Inr o1, t1) \<Longrightarrow>
   shell_exec env ext [''git'', ''clean'', ''-ffdx''] t1 = (Inr o2, t2) \<Longrightarrow>
   shell_exec env ext [''git'', ''checkout'', ''origin/'' @ b] t2 = (Inl e, s2) \<Longrightarrow>
   checkout env ext b s1 = (Inl e, s2)"
  by (simp add: checkout_def)

lemma update_extension_raises:
  "ensure_clone env cf ext (logging INFO (''Starting update for '' @ ext) s) = (Inr (), t1) \<Longrightarrow>
   branches_of env versions t1 = (Inr bs, t2) \<Longrightarrow>
   update_branches env cf force ext bs t2 = (Inl e, t3) \<Longrightarrow>
   update_extension env cf force ext versions s = (Inl e, t3)"
  by (simp add: update_extension_def andthen_def effect_def)

text \<open>
  Claim C3, as the code has it. In a turn of the loop over the branches, a
  \<^verbatim>\<open>CalledProcessError\<close> from any of the three commands inside the \<^verbatim>\<open>try\<close>
  (the baseline reset to \<^verbatim>\<open>origin/master\<close>, the first clean, the checkout of
  \<^verbatim>\<open>origin/<branch>\<close>) is logged as a warning and the loop goes on with the next
  branch. An exception from the commands before the \<^verbatim>\<open>try\<close> (set-url, fetch),
  any other exception inside it, and an exception from the commands after it
  (second clean, submodules, rev-parse) leave the loop at once, and an exception
  that leaves the loop leaves \<^verbatim>\<open>update_extension\<close>.
\<close>

theorem guarded_failure_skips_branch:
  "(fetch_remote env cf ext b s = (Inl e, s1) \<longrightarrow>
      update_branches env cf force ext (b # bs) s = (Inl e, s1))
   \<and> (fetch_remote env cf ext b s = (Inr (), s1) \<and>
      checkout env ext b s1 = (Inl CalledProcessError, s2) \<longrightarrow>
      update_branches env cf force ext (b # bs) s =
        update_branches env cf force ext bs
          (logging WARNING (''could not checkout origin/'' @ b) s2))
   \<and> (fetch_remote env cf ext b s = (Inr (), s1) \<and>
      checkout env ext b s1 = (Inl e, s2) \<and> e \<noteq> CalledProcessError \<longrightarrow>
      update_branches env cf force ext (b # bs) s = (Inl e, s2))
   \<and> (fetch_remote env cf ext b s = (Inr (), s1) \<and> checkout env ext b s1 = (Inr (), s2) \<and>
      clean_checkout env ext s2 = (Inl e, s3) \<longrightarrow>
      update_branches env cf force ext (b # bs) s = (Inl e, s3))
   \<and> (shell_exec env ext [''git'', ''reset'', ''--hard'', ''origin/master''] s1 = (Inl e, s2) \<longrightarrow>
      checkout env ext b s1 = (Inl e, s2))
   \<and> (shell_exec env ext [''git'', ''reset'', ''--hard'', ''origin/master''] s1 = (Inr o1, t1) \<and>
      shell_exec env ext [''git'', ''clean'', ''-ffdx''] t1 = (Inr o2, t2) \<and>
      shell_exec env ext [''git'', ''checkout'', ''origin/'' @ b] t2 = (Inl e, s2) \<longrightarrow>
      checkout env ext b s1 = (Inl e, s2))
   \<and> (ensure_clone env cf ext (logging INFO (''Starting update for '' @ ext) s) = (Inr (), u1) \<and>
      branches_of env versions u1 = (Inr bs, u2) \<and>
      update_branches env cf force ext bs u2 = (Inl e, u3) \<longrightarrow>
      update_extension env cf force ext versions s = (Inl e, u3))"
proof (intro conjI impI)
  assume "fetch_remote env cf ext b s = (Inl e, s1)"
  then show "update_branches env cf force ext (b # bs) s = (Inl e, s1)"
    by (subst update_branches_step) simp
next
  assume "fetch_remote env cf ext b s = (Inr (), s1) \<and>
          checkout env ext b s1 = (Inl CalledProcessError, s2)"
  then show "update_branches env cf force ext (b # bs) s =
        update_branches env cf force ext bs
          (logging WARNING (''could not checkout origin/'' @ b) s2)"
    by (subst update_branches_step) simp
next
  assume "fetch_remote env cf ext b s = (Inr (), s1) \<and>
          checkout env ext b s1 = (Inl e, s2) \<and> e \<noteq> CalledProcessError"
  then show "update_branches env cf force ext (b # bs) s = (Inl e, s2)"
    by (subst update_branches_step) (cases e, simp_all)
next
  assume "fetch_remote env cf ext b s = (Inr (), s1) \<and> checkout env ext b s1 = (Inr (), s2) \<and>
          clean_checkout env ext s2 = (Inl e, s3)"
  then show "update_branches env cf force ext (b # bs) s = (Inl e, s3)"
    by (subst update_branches_step) simp
next
  assume "shell_exec env ext [''git'', ''reset'', ''--hard'', ''origin/master''] s1 = (Inl e, s2)"
  then show "checkout env ext b s1 = (Inl e, s2)"
    by (rule checkout_reset_raises)
next
  assume "shell_exec env ext [''git'', ''reset'', ''--hard'', ''origin/master''] s1 = (Inr o1, t1) \<and>
      shell_exec env ext [''git'', ''clean'', ''-ffdx''] t1 = (Inr o2, t2) \<and>
      shell_exec env ext [''git'', ''checkout'', ''origin/'' @ b] t2 = (Inl e, s2)"
  then show "checkout env ext b s1 = (Inl e, s2)"
    using checkout_checkout_raises by blast
next
  assume "ensure_clone env cf ext (logging INFO (''Starting update for '' @ ext) s) = (Inr (), u1) \<and>
      branches_of env versions u1 = (Inr bs, u2) \<and>
      update_branches env cf force ext bs u2 = (Inl e, u3)"
  then show "update_extension env cf force ext versions s = (Inl e, u3)"
    using update_extension_raises by blast
qed

text \<open>
  The theorem at clones where, in turn, the fetch fails, the baseline reset
  fails, the first clean raises an \<^verbatim>\<open>OSError\<close>, \<^verbatim>\<open>rev-parse\<close> fails, and the
  requested branch is missing.
\<close>

theorem guarded_failure_skips_branch_witness:
  "fst (update_branches (stub_env (git_fails_at [''git'', ''fetch''] CalledProcessError)) stub_conf
          False ''Foo'' [''REL1_39'', ''REL1_40'']
          (cloned_world ''0123456789abcdef0123456789abcdef01234567\<newline>'')) = Inl CalledProcessError
   \<and> update_branches (stub_env git_reset_fails_once) stub_conf False ''Foo'' [''REL1_39'', ''REL1_40'']
       (cloned_world ''0123456789abcdef0123456789abcdef01234567\<newline>'') =
     update_branches (stub_env git_reset_fails_once) stub_conf False ''Foo'' [''REL1_40'']
       (logging WARNING (''could not checkout origin/'' @ ''REL1_39'')
          (snd (checkout (stub_env git_reset_fails_once) ''Foo'' ''REL1_39''
             (snd (fetch_remote (stub_env git_reset_fails_once) stub_conf ''Foo'' ''REL1_39''
                     (cloned_world ''0123456789abcdef0123456789abcdef01234567\<newline>''))))))
   \<and> fst (update_branches (stub_env (git_fails_at [''git'', ''clean'', ''-ffdx''] OSError)) stub_conf
            False ''Foo'' [''REL1_39'', ''REL1_40'']
            (cloned_world ''0123456789abcdef0123456789abcdef01234567\<newline>'')) = Inl OSError
   \<and> fst (update_branches
            (stub_env (git_fails_at [''git'', ''rev-parse'', ''--short=7'', ''HEAD'']
                         CalledProcessError))
            stub_conf False ''Foo'' [''REL1_39'', ''REL1_40'']
            (cloned_world ''0123456789abcdef0123456789abcdef01234567\<newline>'')) = Inl CalledProcessError
   \<and> fst (checkout (stub_env git_reset_fails_once) ''Foo'' ''REL1_39''
            (cloned_world ''0123456789abcdef0123456789abcdef01234567\<newline>'')) = Inl CalledProcessError
   \<and> fst (checkout
            (stub_env (git_fails_at [''git'', ''checkout'', ''origin/REL1_39''] CalledProcessError))
            ''Foo'' ''REL1_39''
            (cloned_world ''0123456789abcdef0123456789abcdef01234567\<newline>'')) = Inl CalledProcessError
   \<and> fst (update_extension (stub_env (git_fails_at [''git'', ''fetch''] CalledProcessError))
            stub_conf False ''Foo'' (Some [''REL1_39'', ''REL1_40''])
            (cloned_world ''0123456789abcdef0123456789abcdef01234567\<newline>'')) = Inl CalledProcessError"
proof -
  let ?w = "cloned_world ''0123456789abcdef0123456789abcdef01234567\<newline>''"
  let ?cpe = CalledProcessError
  let ?reset = "[''git'', ''reset'', ''--hard'', ''origin/master'']"
  let ?clean = "[''git'', ''clean'', ''-ffdx'']"
  let ?co = "[''git'', ''checkout'', ''origin/'' @ ''REL1_39'']"
  let ?e1 = "stub_env git_reset_fails_once"
  let ?e2 = "stub_env (git_fails_at [''git'', ''fetch''] CalledProcessError)"
  let ?e3 = "stub_env (git_fails_at [''git'', ''checkout'', ''origin/REL1_39''] CalledProcessError)"
  let ?e4 = "stub_env (git_fails_at [''git'', ''clean'', ''-ffdx''] OSError)"
  let ?e5 = "stub_env (git_fails_at [''git'', ''rev-parse'', ''--short=7'', ''HEAD'']
                         CalledProcessError)"
  \<comment> \<open>fetch fails: the loop is left\<close>
  have a1: "fst (fetch_remote ?e2 stub_conf ''Foo'' ''REL1_39'' ?w) = Inl ?cpe"
    by code_simp
  note a = guarded_failure_skips_branch
             [where env = ?e2 and cf = stub_conf and ext = "''Foo''" and b = "''REL1_39''"
                and s = ?w and e = ?cpe and force = False and bs = "[''REL1_40'']"
                and ?s1.0 = "snd (fetch_remote ?e2 stub_conf ''Foo'' ''REL1_39'' ?w)",
              THEN conjunct1, THEN mp, OF pair_of_fst [OF a1]]
  \<comment> \<open>the baseline reset fails: the branch is skipped\<close>
  let ?s1 = "snd (fetch_remote ?e1 stub_conf ''Foo'' ''REL1_39'' ?w)"
  have b1: "fst (fetch_remote ?e1 stub_conf ''Foo'' ''REL1_39'' ?w) = Inr ()"
    by code_simp
  have b2: "fst (checkout ?e1 ''Foo'' ''REL1_39'' ?s1) = Inl ?cpe"
    by code_simp
  note b = guarded_failure_skips_branch
             [where env = ?e1 and cf = stub_conf and ext = "''Foo''" and b = "''REL1_39''"
                and s = ?w and ?s1.0 = ?s1 and force = False and bs = "[''REL1_40'']"
                and ?s2.0 = "snd (checkout ?e1 ''Foo'' ''REL1_39'' ?s1)",
              THEN conjunct2, THEN conjunct1, THEN mp,
              OF conjI [OF pair_of_fst [OF b1] pair_of_fst [OF b2]]]
  \<comment> \<open>another exception inside the try: the loop is left\<close>
  let ?t1 = "snd (fetch_remote ?e4 stub_conf ''Foo'' ''REL1_39'' ?w)"
  have c1: "fst (fetch_remote ?e4 stub_conf ''Foo'' ''REL1_39'' ?w) = Inr ()"
    by code_simp
  have c2: "fst (checkout ?e4 ''Foo'' ''REL1_39'' ?t1) = Inl OSError"
    by code_simp
  have c3: "OSError \<noteq> ?cpe"
    by simp
  note c = guarded_failure_skips_branch
             [where env = ?e4 and cf = stub_conf and ext = "''Foo''" and b = "''REL1_39''"
                and s = ?w and ?s1.0 = ?t1 and force = False and bs = "[''REL1_40'']"
                and e = OSError and ?s2.0 = "snd (checkout ?e4 ''Foo'' ''REL1_39'' ?t1)",
              THEN conjunct2, THEN conjunct2, THEN conjunct1, THEN mp,
              OF conjI [OF pair_of_fst [OF c1] conjI [OF pair_of_fst [OF c2] c3]]]
  \<comment> \<open>rev-parse fails after the try: the loop is left\<close>
  let ?u1 = "snd (fetch_remote ?e5 stub_conf ''Foo'' ''REL1_39'' ?w)"
  let ?u2 = "snd (checkout ?e5 ''Foo'' ''REL1_39'' ?u1)"
  have d1: "fst (fetch_remote ?e5 stub_conf ''Foo'' ''REL1_39'' ?w) = Inr ()"
    by code_simp
  have d2: "fst (checkout ?e5 ''Foo'' ''REL1_39'' ?u1) = Inr ()"
    by code_simp
  have d3: "fst (clean_checkout ?e5 ''Foo'' ?u2) = Inl ?cpe"
    by code_simp
  note d = guarded_failure_skips_branch
             [where env = ?e5 and cf = stub_conf and ext = "''Foo''" and b = "''REL1_39''"
                and s = ?w and ?s1.0 = ?u1 and ?s2.0 = ?u2 and force = False
                and bs = "[''REL1_40'']" and e = ?cpe
                and ?s3.0 = "snd (clean_checkout ?e5 ''Foo'' ?u2)",
              THEN conjunct2, THEN conjunct2, THEN conjunct2, THEN conjunct1, THEN mp,
              OF conjI [OF pair_of_fst [OF d1] conjI [OF pair_of_fst [OF d2] pair_of_fst [OF d3]]]]
  \<comment> \<open>the reset is inside the try\<close>
  have e1: "fst (shell_exec ?e1 ''Foo'' ?reset ?w) = Inl ?cpe"
    by code_simp
  note e = guarded_failure_skips_branch
             [where env = ?e1 and ext = "''Foo''" and b = "''REL1_39''" and ?s1.0 = ?w
                and e = ?cpe and ?s2.0 = "snd (shell_exec ?e1 ''Foo'' ?reset ?w)",
              THEN conjunct2, THEN conjunct2, THEN conjunct2, THEN conjunct2, THEN conjunct1,
              THEN mp, OF pair_of_fst [OF e1]]
  \<comment> \<open>the requested branch is missing\<close>
  let ?v1 = "snd (shell_exec ?e3 ''Foo'' ?reset ?w)"
  let ?v2 = "snd (shell_exec ?e3 ''Foo'' ?clean ?v1)"
  have f1: "fst (shell_exec ?e3 ''Foo'' ?reset ?w) = Inr []"
    by code_simp
  have f2: "fst (shell_exec ?e3 ''Foo'' ?clean ?v1) = Inr []"
    by code_simp
  have f3: "fst (shell_exec ?e3 ''Foo'' ?co ?v2) = Inl ?cpe"
    by code_simp
  note f = guarded_failure_skips_branch
             [where env = ?e3 and ext = "''Foo''" and b = "''REL1_39''" and ?s1.0 = ?w
                and ?o1.0 = "[]" and ?t1.0 = ?v1 and ?o2.0 = "[]" and ?t2.0 = ?v2
                and e = ?cpe and ?s2.0 = "snd (shell_exec ?e3 ''Foo'' ?co ?v2)",
              THEN conjunct2, THEN conjunct2, THEN conjunct2, THEN conjunct2, THEN conjunct2,
              THEN conjunct1, THEN mp,
              OF conjI [OF pair_of_fst [OF f1] conjI [OF pair_of_fst [OF f2] pair_of_fst [OF f3]]]]
  \<comment> \<open>leaving the loop is leaving \<^verbatim>\<open>update_extension\<close>\<close>
  let ?x0 = "logging INFO (''Starting update for '' @ ''Foo'') ?w"
  let ?x1 = "snd (ensure_clone ?e2 stub_conf ''Foo'' ?x0)"
  let ?x2 = "snd (branches_of ?e2 (Some [''REL1_39'', ''REL1_40'']) ?x1)"
  have g1: "fst (ensure_clone ?e2 stub_conf ''Foo'' ?x0) = Inr ()"
    by code_simp
  have g2: "fst (branches_of ?e2 (Some [''REL1_39'', ''REL1_40'']) ?x1)
              = Inr [''REL1_39'', ''REL1_40'']"
    by code_simp
  have g3: "fst (update_branches ?e2 stub_conf False ''Foo'' [''REL1_39'', ''REL1_40''] ?x2)
              = Inl ?cpe"
    by code_simp
  note g = guarded_failure_skips_branch
             [where env = ?e2 and cf = stub_conf and ext = "''Foo''" and s = ?w
                and versions = "Some [''REL1_39'', ''REL1_40'']" and ?u1.0 = ?x1
                and bs = "[''REL1_39'', ''REL1_40'']" and ?u2.0 = ?x2 and force = False
                and e = ?cpe
                and ?u3.0 = "snd (update_branches ?e2 stub_conf False ''Foo''
                                    [''REL1_39'', ''REL1_40''] ?x2)",
              THEN conjunct2, THEN conjunct2, THEN conjunct2, THEN conjunct2, THEN conjunct2,
              THEN conjunct2, THEN mp,
              OF conjI [OF pair_of_fst [OF g1] conjI [OF pair_of_fst [OF g2] pair_of_fst [OF g3]]]]
  show ?thesis
    using a b c d e f g by (simp only: fst_conv simp_thms)
qed

text \<open>
  Against C3 as stated: the failure of \<^verbatim>\<open>git reset --hard origin/master\<close> is a
  version-control failure other than a missing requested branch, yet it does not
  reach the caller. \<^verbatim>\<open>update_extension\<close> returns normally, branch
  \<^verbatim>\<open>REL1_39\<close> is skipped with a warning and the next branch is built.
\<close>

theorem baseline_reset_failure_counterexample:
  "fst (shell_exec (stub_env git_reset_fails_once) ''Foo''
          [''git'', ''reset'', ''--hard'', ''origin/master'']
          (snd (fetch_remote (stub_env git_reset_fails_once) stub_conf ''Foo'' ''REL1_39''
                  (cloned_world ''0123456789abcdef0123456789abcdef01234567\<newline>''))))
     = Inl CalledProcessError
   \<and> fst (update_extension (stub_env git_reset_fails_once) stub_conf False ''Foo''
            (Some [''REL1_39'', ''REL1_40''])
            (cloned_world ''0123456789abcdef0123456789abcdef01234567\<newline>'')) = Inr ()
   \<and> (WARNING, ''could not checkout origin/REL1_39'')
       \<in> set (log_file (snd (update_extension (stub_env git_reset_fails_once) stub_conf False
                                ''Foo'' (Some [''REL1_39'', ''REL1_40''])
                                (cloned_world ''0123456789abcdef0123456789abcdef01234567\<newline>''))))
   \<and> dist (snd (update_extension (stub_env git_reset_fails_once) stub_conf False ''Foo''
                   (Some [''REL1_39'', ''REL1_40''])
                   (cloned_world ''0123456789abcdef0123456789abcdef01234567\<newline>'')))
        ''Foo-REL1_40.tar.gz'' \<noteq> None"
  by code_simp




subsection \<open>Tarballs\<close>














lemma move_tarballs_frame:
  "outside (move_tarballs env s) = outside s \<and> mirrors (move_tarballs env s) = mirrors s \<and>
   pid_file (move_tarballs env s) = pid_file s"
  by (simp add: move_tarballs_def Let_def logging_def)
















end
